theory Spec2Isabelle
  imports Main "HOL-Library.Sublist"
begin

section \<open>The relaunch supervisor (packages/cli/src/utils/relaunch.ts)\<close>

subsection \<open>JavaScript values the supervisor handles\<close>

text \<open>
  A value that a rejected promise or a \<open>throw\<close> carries. \<open>ErrorObject stack message\<close>
  is an instance of \<open>Error\<close> (its \<open>stack\<close> may be undefined); \<open>ThrownValue s\<close> is any
  other value, \<open>s\<close> being what \<open>String(error)\<close> yields for it.
\<close>

datatype js_error = ErrorObject "string option" string | ThrownValue string

text \<open>
  \<open>error instanceof Error ? (error.stack ?? error.message) : String(error)\<close>
\<close>

fun errorMessage :: "js_error \<Rightarrow> string" where
  "errorMessage (ErrorObject (Some stack) message) = stack"
| "errorMessage (ErrorObject None message) = message"
| "errorMessage (ThrownValue s) = s"

text \<open>\<open>s.startsWith(p)\<close>, and the same behind \<open>?.\<close> on a possibly undefined string.\<close>

definition startsWith :: "string \<Rightarrow> string \<Rightarrow> bool" where
  "startsWith s p = prefix p s"

definition opt_startsWith :: "string option \<Rightarrow> string \<Rightarrow> bool option" where
  "opt_startsWith so p = map_option (\<lambda>s. startsWith s p) so"

text \<open>Truthiness of \<open>boolean | undefined\<close> and of \<open>string | undefined\<close>.\<close>

definition truthy_bool :: "bool option \<Rightarrow> bool" where
  "truthy_bool b = (b = Some True)"

definition truthy_string :: "string option \<Rightarrow> bool" where
  "truthy_string v = (case v of None \<Rightarrow> False | Some s \<Rightarrow> s \<noteq> [])"

text \<open>\<open>xs[i]\<close> on an array: undefined out of range.\<close>

definition at_index :: "'a list \<Rightarrow> nat \<Rightarrow> 'a option" where
  "at_index xs i = (if i < length xs then Some (xs ! i) else None)"

subsection \<open>The process and its effects\<close>

text \<open>
  How a spawned child ends, as the two handlers of the runner see it, up to the
  moment the awaiting loop goes on:
  \<^item> \<open>Close code\<close>: the \<open>close\<close> event with its code, a number, or null when the
    child was ended by a signal;
  \<^item> \<open>EmitError err\<close>: the \<open>error\<close> event alone (an error while the child runs);
  \<^item> \<open>EmitErrorThenClose err code\<close>: the \<open>error\<close> event and then the \<open>close\<close>
    event, as node:child_process emits them for a child that could not be spawned
    (\<open>close\<close> is emitted after \<open>exit\<close>, or after \<open>error\<close> if the child failed to
    spawn).
\<close>

datatype child_end =
    Close "int option"
  | EmitError js_error
  | EmitErrorThenClose js_error "int option"

text \<open>
  The effects of the supervisor, in the order they happen. \<open>Spawn file args env\<close> is
  the call \<open>spawn(file, args, {stdio: 'inherit', env})\<close>; an element of \<open>args\<close> is
  \<open>None\<close> where the source puts an undefined \<open>process.argv[1]\<close> there.
\<close>

datatype event =
    StdinPause
  | StdinResume
  | Spawn string "string option list" "string \<rightharpoonup> string"
  | ChildEnded child_end
  | WriteToStderr string

text \<open>
  The state of the parent process. \<open>children p n\<close> is how the \<open>n\<close>-th child that the
  process spawns will end (the behaviour of the world outside the program);
  \<open>spawned\<close> counts the children spawned so far.
\<close>

record process =
  env :: "string \<rightharpoonup> string"
  argv :: "string list"
  execPath :: string
  children :: "nat \<Rightarrow> child_end"
  spawned :: nat
  trace :: "event list"

definition emit :: "event \<Rightarrow> process \<Rightarrow> process" where
  "emit e p = p\<lparr>trace := trace p @ [e]\<rparr>"

definition stdin_pause :: "process \<Rightarrow> process" where
  "stdin_pause p = emit StdinPause p"

definition stdin_resume :: "process \<Rightarrow> process" where
  "stdin_resume p = emit StdinResume p"

text \<open>
  Modelled from the spec: \<open>writeToStderr\<close> is imported from the core package, which
  is not among the sources. Section 7 has a fatal relaunch failure print its message
  to the error stream: the call is recorded in the trace with the text written.
\<close>

definition writeToStderr :: "string \<Rightarrow> process \<Rightarrow> process" where
  "writeToStderr s p = emit (WriteToStderr s) p"

text \<open>
  \<open>spawn(file, args, {stdio: 'inherit', env})\<close>: returns the child (its index). A
  child that cannot be started is a child that ends with \<open>EmitErrorThenClose\<close>.
\<close>

definition spawn_child ::
  "string \<Rightarrow> string option list \<Rightarrow> (string \<rightharpoonup> string) \<Rightarrow> process \<Rightarrow> nat \<times> process" where
  "spawn_child file args e p =
     (spawned p, (emit (Spawn file args e) p)\<lparr>spawned := Suc (spawned p)\<rparr>)"

text \<open>
  The promise the runner returns, awaited:
  \<^verbatim>\<open>
    new Promise<number>((resolve, reject) => {
      child.on('error', reject);
      child.on('close', (code) => {
        process.stdin.resume();
        resolve(code ?? 1);
      });
    })
  \<close>
  \<open>Inl\<close> is the rejection, \<open>Inr\<close> the number the promise resolves with. The first
  event settles the promise; when \<open>close\<close> follows \<open>error\<close>, the \<open>close\<close> handler
  still runs and resumes stdin, and its \<open>resolve\<close> has no effect on the promise
  that \<open>reject\<close> has settled.
\<close>

definition await_child :: "nat \<Rightarrow> process \<Rightarrow> (js_error + int) \<times> process" where
  "await_child child p =
     (case children p child of
        EmitError err \<Rightarrow> (Inl err, emit (ChildEnded (EmitError err)) p)
      | EmitErrorThenClose err code \<Rightarrow>
          (Inl err, stdin_resume (emit (ChildEnded (EmitErrorThenClose err code)) p))
      | Close code \<Rightarrow>
          (Inr (case code of Some c \<Rightarrow> c | None \<Rightarrow> 1),
           stdin_resume (emit (ChildEnded (Close code)) p)))"

subsection \<open>relaunchOnExitCode\<close>

text \<open>
  What the loop ends with: \<open>process.exit(exit_code)\<close>. \<open>runner_calls\<close> counts the
  invocations of the runner the loop made, \<open>final\<close> is the process state at the exit.
\<close>

record loop_end =
  exit_code :: int
  runner_calls :: nat
  final :: process

definition fatal_message :: "js_error \<Rightarrow> string" where
  "fatal_message error =
     ''Fatal error: Failed to relaunch the CLI process.'' @ [CHR 0x0A]
       @ errorMessage error @ [CHR 0x0A]"

text \<open>
  \<^verbatim>\<open>
  while (true) {
    try {
      const exitCode = await runner();
      if (exitCode !== RELAUNCH_EXIT_CODE) { process.exit(exitCode); }
    } catch (error) {
      process.stdin.resume();
      const errorMessage = ...;
      writeToStderr(`Fatal error: Failed to relaunch the CLI process.\n${errorMessage}\n`);
      process.exit(1);
    }
  }
  \<close>
  The loop has no exit but \<open>process.exit\<close>, so running forever is the value \<open>None\<close>.
  \<open>RELAUNCH_EXIT_CODE\<close> is imported from processUtils.js, which is not among the
  sources: it is the parameter \<open>sentinel\<close>. The argument \<open>n\<close> counts the invocations
  made before this iteration.
\<close>

partial_function (option) relaunch_loop ::
  "int \<Rightarrow> (process \<Rightarrow> (js_error + int) \<times> process) \<Rightarrow> nat \<Rightarrow> process \<Rightarrow> loop_end option" where
  "relaunch_loop sentinel runner n p =
     (case runner p of
        (Inr exitCode, p') \<Rightarrow>
          if exitCode \<noteq> sentinel
          then Some \<lparr>exit_code = exitCode, runner_calls = Suc n, final = p'\<rparr>
          else relaunch_loop sentinel runner (Suc n) p'
      | (Inl error, p') \<Rightarrow>
          Some \<lparr>exit_code = 1, runner_calls = Suc n,
                final = writeToStderr (fatal_message error) (stdin_resume p')\<rparr>)"

definition relaunchOnExitCode ::
  "int \<Rightarrow> (process \<Rightarrow> (js_error + int) \<times> process) \<Rightarrow> process \<Rightarrow> loop_end option" where
  "relaunchOnExitCode sentinel runner p = relaunch_loop sentinel runner 0 p"

text \<open>The process state after \<open>i\<close> invocations of the runner, and what the next returns.\<close>

definition state_after :: "(process \<Rightarrow> (js_error + int) \<times> process) \<Rightarrow> nat \<Rightarrow> process \<Rightarrow> process" where
  "state_after runner i p = ((\<lambda>q. snd (runner q)) ^^ i) p"

definition nth_return :: "(process \<Rightarrow> (js_error + int) \<times> process) \<Rightarrow> nat \<Rightarrow> process \<Rightarrow> js_error + int" where
  "nth_return runner i p = fst (runner (state_after runner i p))"

subsection \<open>relaunchAppInChildProcess\<close>

text \<open>
  relaunch.ts holds two listings of this module. They share \<open>relaunchOnExitCode\<close> and
  differ in how \<open>relaunchAppInChildProcess\<close> treats a compiled binary: the first
  listing (lines 31 to 74) leaves the script path out of the child's arguments, the
  second (lines 105 to 152) returns before any relaunch. Both are modelled;
  \<open>relaunchAppInChildProcess_1\<close> and \<open>runner_1\<close> are the first listing.
\<close>

definition newEnv :: "process \<Rightarrow> (string \<rightharpoonup> string)" where
  \<comment> \<open>\<open>{ ...process.env, GEMINI_CLI_NO_RELAUNCH: 'true' }\<close>\<close>
  "newEnv p = (env p)(''GEMINI_CLI_NO_RELAUNCH'' \<mapsto> ''true'')"

text \<open>
  The runner of the first listing:
  \<^verbatim>\<open>
    const scriptArgs = process.argv.slice(2);
    const isCompiledBinary = process.argv[1]?.startsWith('/$bunfs/');
    const scriptPath = isCompiledBinary ? [] : [process.argv[1]];
    const args = [...additionalBunArgs, ...scriptPath, ...additionalScriptArgs, ...scriptArgs];
    const newEnv = { ...process.env, GEMINI_CLI_NO_RELAUNCH: 'true' };
    process.stdin.pause();
    const child = spawn(process.execPath, args, { stdio: 'inherit', env: newEnv });
    return new Promise<number>(...);
  \<close>
\<close>

definition runner_1 ::
  "string list \<Rightarrow> string list \<Rightarrow> process \<Rightarrow> (js_error + int) \<times> process" where
  "runner_1 additionalBunArgs additionalScriptArgs p =
     (let scriptArgs = drop 2 (argv p);
          isCompiledBinary = opt_startsWith (at_index (argv p) 1) ''/$bunfs/'';
          scriptPath = (if truthy_bool isCompiledBinary then [] else [at_index (argv p) 1]);
          args = map Some additionalBunArgs @ scriptPath
                   @ map Some additionalScriptArgs @ map Some scriptArgs;
          e = newEnv p;
          p1 = stdin_pause p;
          (child, p2) = spawn_child (execPath p1) args e p1
      in await_child child p2)"

text \<open>
  The runner of the second listing; \<open>scriptPath\<close> is \<open>process.argv[1]\<close>, read before
  the runner is built:
  \<^verbatim>\<open>
    const scriptArgs = process.argv.slice(2);
    const args = [...additionalBunArgs, scriptPath, ...additionalScriptArgs, ...scriptArgs];
    const newEnv = { ...process.env, GEMINI_CLI_NO_RELAUNCH: 'true' };
    process.stdin.pause();
    const child = spawn(process.execPath, args, { stdio: 'inherit', env: newEnv });
    return new Promise<number>(...);
  \<close>
\<close>

definition runner ::
  "string list \<Rightarrow> string option \<Rightarrow> string list \<Rightarrow> process \<Rightarrow> (js_error + int) \<times> process" where
  "runner additionalBunArgs scriptPath additionalScriptArgs p =
     (let scriptArgs = drop 2 (argv p);
          args = map Some additionalBunArgs @ [scriptPath]
                   @ map Some additionalScriptArgs @ map Some scriptArgs;
          e = newEnv p;
          p1 = stdin_pause p;
          (child, p2) = spawn_child (execPath p1) args e p1
      in await_child child p2)"

text \<open>
  What the runners of both listings do once \<open>args\<close> is built, word for word the
  same in the two (lines 53 to 70 and 131 to 148): build \<open>newEnv\<close>, pause stdin,
  spawn the child, return the promise.
\<close>

definition launch :: "string option list \<Rightarrow> process \<Rightarrow> (js_error + int) \<times> process" where
  "launch args p =
     (let e = newEnv p;
          p1 = stdin_pause p;
          (child, p2) = spawn_child (execPath p1) args e p1
      in await_child child p2)"

text \<open>
  How a call of \<open>relaunchAppInChildProcess\<close> ends: it returns to its caller with the
  process in the given state, or the process exits inside the loop. \<open>None\<close> is a
  call that never ends.
\<close>

datatype app_end = Returned process | Exited loop_end

definition relaunchAppInChildProcess_1 ::
  "int \<Rightarrow> string list \<Rightarrow> string list \<Rightarrow> process \<Rightarrow> app_end option" where
  "relaunchAppInChildProcess_1 sentinel additionalBunArgs additionalScriptArgs p =
     (if truthy_string (env p ''GEMINI_CLI_NO_RELAUNCH'') then Some (Returned p)
      else map_option Exited
             (relaunchOnExitCode sentinel (runner_1 additionalBunArgs additionalScriptArgs) p))"

text \<open>
  The second listing:
  \<^verbatim>\<open>
    if (process.env['GEMINI_CLI_NO_RELAUNCH']) { return; }
    const scriptPath = process.argv[1];
    const isCompiledBinary =
      scriptPath?.startsWith('/$bunfs/') || scriptPath?.startsWith('B:/~BUN/');
    if (isCompiledBinary) { return; }
    const runner = ...;
    await relaunchOnExitCode(runner);
  \<close>
\<close>

definition isCompiledBinary :: "string option \<Rightarrow> bool" where
  "isCompiledBinary scriptPath =
     (truthy_bool (opt_startsWith scriptPath ''/$bunfs/'')
      \<or> truthy_bool (opt_startsWith scriptPath ''B:/~BUN/''))"

definition relaunchAppInChildProcess ::
  "int \<Rightarrow> string list \<Rightarrow> string list \<Rightarrow> process \<Rightarrow> app_end option" where
  "relaunchAppInChildProcess sentinel additionalBunArgs additionalScriptArgs p =
     (if truthy_string (env p ''GEMINI_CLI_NO_RELAUNCH'') then Some (Returned p)
      else let scriptPath = at_index (argv p) 1
           in if isCompiledBinary scriptPath then Some (Returned p)
              else map_option Exited
                     (relaunchOnExitCode sentinel
                        (runner additionalBunArgs scriptPath additionalScriptArgs) p))"

text \<open>Reading a trace: the children spawned, and the environments they were given.\<close>

fun is_Spawn :: "event \<Rightarrow> bool" where
  "is_Spawn (Spawn file args e) = True"
| "is_Spawn _ = False"

fun spawn_env :: "event \<Rightarrow> (string \<rightharpoonup> string)" where
  "spawn_env (Spawn file args e) = e"
| "spawn_env _ = Map.empty"

definition spawns :: "process \<Rightarrow> event list" where
  "spawns p = filter is_Spawn (trace p)"








text \<open>Every child spawned so far was given the marker that disables relaunching.\<close>

definition marked :: "process \<Rightarrow> bool" where
  "marked q = (\<forall>ev \<in> set (spawns q). spawn_env ev ''GEMINI_CLI_NO_RELAUNCH'' = Some ''true'')"

text \<open>A process at its start, for the examples: run by bun on a script, with the given children.\<close>

definition example_process :: "(string \<rightharpoonup> string) \<Rightarrow> (nat \<Rightarrow> child_end) \<Rightarrow> process" where
  "example_process e cs =
     \<lparr>env = e, argv = [''/usr/local/bin/bun'', ''/app/gemini.js'', ''--debug''],
      execPath = ''/usr/local/bin/bun'', children = cs, spawned = 0, trace = []\<rparr>"

section \<open>The PTY adapter (the module listed in esbuild.config.js from line 137)\<close>

subsection \<open>Values and objects\<close>

text \<open>
  The values an entry of \<open>options.env\<close> is modelled to hold at run time: the field is
  typed \<open>Record<string, string>\<close>, and the code guards against undefined and null and
  coerces the rest with \<open>String\<close>. Booleans stand for the values that are neither
  absent nor already strings.
\<close>

datatype js_value = Undefined | Null | Str string | Bool bool

fun String :: "js_value \<Rightarrow> string" where
  "String Undefined = ''undefined''"
| "String Null = ''null''"
| "String (Str s) = s"
| "String (Bool b) = (if b then ''true'' else ''false'')"

text \<open>
  An object is the list of its own properties, each key once; its prototype is
  \<open>Object.prototype\<close>, as that of the literal \<open>{}\<close> is. \<open>obj[key] = value\<close> replaces
  the value of a key the object has, and adds the property otherwise, but for the key
  \<open>__proto__\<close>: where the object has no property of its own under it, the assignment
  runs the setter inherited from \<open>Object.prototype\<close>, which adds no property (and,
  for a value that is not an object, changes nothing). Nothing is said of
  enumeration order.
\<close>

type_synonym js_object = "(string \<times> js_value) list"

fun set_property :: "string \<Rightarrow> js_value \<Rightarrow> js_object \<Rightarrow> js_object" where
  "set_property key v [] = (if key = ''__proto__'' then [] else [(key, v)])"
| "set_property key v ((k, w) # rest) =
     (if k = key then (k, v) # rest else (k, w) # set_property key v rest)"

text \<open>
  The entry that counts for a key: the value of the last entry for the key that is
  neither undefined nor null, if there is one.
\<close>

definition defined_value :: "(string \<times> js_value) list \<Rightarrow> string \<Rightarrow> js_value option" where
  "defined_value entries key =
     map_of (rev (filter (\<lambda>(k, v). v \<noteq> Undefined \<and> v \<noteq> Null) entries)) key"

subsection \<open>Options and the backend\<close>

datatype PtyBackend = BunPty

record PtySpawnOptions =
  name :: "string option"
  cols :: "int option"
  rows :: "int option"
  cwd :: "string option"
  options_env :: "(string \<times> js_value) list option"
  handleFlowControl :: "bool option"

text \<open>The options object the adapter passes to the \<open>spawn\<close> of bun-pty.\<close>

record BunPtyOptions =
  bun_name :: string
  bun_cols :: int
  bun_rows :: int
  bun_cwd :: "string option"
  bun_env :: js_object

text \<open>The argument of an exit callback: \<open>{ exitCode: number; signal?: number }\<close>.\<close>

record exit_event =
  exitCode :: int
  signal :: "int option"

text \<open>
  bun-pty is an external library. A call the adapter makes on it is a value: the
  \<open>spawn\<close> call with its three arguments, and the calls on the terminal it returned,
  each with the arguments the adapter passes (\<open>PtyKill None\<close> is \<open>pty.kill()\<close>).
\<close>

datatype backend_call =
    BunSpawn string "string list" BunPtyOptions
  | PtyWrite string
  | PtyKill "string option"
  | PtyResize int int

text \<open>
  \<^verbatim>\<open>
    const cleanEnv: Record<string, string> = {};
    if (options.env) {
      for (const [key, value] of Object.entries(options.env)) {
        if (value !== undefined && value !== null) {
          cleanEnv[key] = String(value);
        }
      }
    }
  \<close>
\<close>

fun clean_loop :: "(string \<times> js_value) list \<Rightarrow> js_object \<Rightarrow> js_object" where
  "clean_loop [] cleanEnv = cleanEnv"
| "clean_loop ((key, v) # rest) cleanEnv =
     clean_loop rest
       (if v \<noteq> Undefined \<and> v \<noteq> Null then set_property key (Str (String v)) cleanEnv
        else cleanEnv)"

definition cleanEnv :: "PtySpawnOptions \<Rightarrow> js_object" where
  "cleanEnv options =
     (case options_env options of None \<Rightarrow> [] | Some entries \<Rightarrow> clean_loop entries [])"

text \<open>
  \<^verbatim>\<open>
    const pty = spawn(command, args, {
      name: options.name ?? 'xterm-256color',
      cols: options.cols ?? 80,
      rows: options.rows ?? 24,
      cwd: options.cwd,
      env: cleanEnv,
    });
  \<close>
\<close>

definition spawn :: "string \<Rightarrow> string list \<Rightarrow> PtySpawnOptions \<Rightarrow> backend_call" where
  "spawn command args options =
     BunSpawn command args
       \<lparr>bun_name = (case name options of Some n \<Rightarrow> n | None \<Rightarrow> ''xterm-256color''),
        bun_cols = (case cols options of Some c \<Rightarrow> c | None \<Rightarrow> 80),
        bun_rows = (case rows options of Some r \<Rightarrow> r | None \<Rightarrow> 24),
        bun_cwd = cwd options,
        bun_env = cleanEnv options\<rparr>"

subsection \<open>The methods of the returned PtyInstance\<close>

text \<open>
  \<open>onExit(callback) { pty.onExit(({ exitCode }: { exitCode: number }) => callback({ exitCode })); }\<close>:
  the value is the handler that the adapter registers with the backend, a function
  of the event the backend reports.
\<close>

definition onExit :: "(exit_event \<Rightarrow> 'r) \<Rightarrow> exit_event \<Rightarrow> 'r" where
  "onExit callback = (\<lambda>e. callback \<lparr>exitCode = exitCode e, signal = None\<rparr>)"

text \<open>\<open>write(data) { pty.write(data); }\<close> (\<open>write\<close> is a keyword of Isabelle).\<close>

definition write_data :: "string \<Rightarrow> backend_call" where
  "write_data data = PtyWrite data"

text \<open>
  \<open>kill() { pty.kill(); }\<close>, the implementation of \<open>kill(signal?: string): void\<close> of
  the interface: \<open>sig\<close> is the signal the caller passes, if any.
\<close>

definition kill :: "string option \<Rightarrow> backend_call" where
  "kill sig = PtyKill None"

text \<open>\<open>resize(cols, rows) { pty.resize(cols, rows); }\<close>\<close>

definition resize :: "int \<Rightarrow> int \<Rightarrow> backend_call" where
  "resize c r = PtyResize c r"

subsection \<open>createBunPtyAdapter and createPtyAdapter\<close>

text \<open>
  What the two functions read and change. \<open>isBun\<close> is
  \<open>typeof globalThis.Bun !== 'undefined'\<close>; \<open>import_bun_pty\<close> is what
  \<open>await import('bun-pty')\<close> does, failing with an error or yielding the module's
  \<open>spawn\<close> (a value of type \<open>'f\<close>); \<open>bunPtySpawn\<close> is the module variable caching it;
  \<open>debug_log\<close> holds the calls of \<open>debugLogger.debug\<close>, message and attached error.
\<close>

record 'f runtime =
  isBun :: bool
  import_bun_pty :: "js_error + 'f"
  bunPtySpawn :: "'f option"
  debug_log :: "(string \<times> js_error) list"

record 'f PtyAdapter =
  backend :: PtyBackend
  adapter_spawn :: 'f

text \<open>
  \<^verbatim>\<open>
    if (!bunPtySpawn) {
      const bunPty = await import('bun-pty');
      bunPtySpawn = bunPty.spawn;
    }
    const spawn = bunPtySpawn;
    return { backend: 'bun-pty', spawn(command, args, options) { ... } };
  \<close>
  \<open>Inl\<close> is the exception of a failed import.
\<close>

definition createBunPtyAdapter :: "'f runtime \<Rightarrow> (js_error + 'f PtyAdapter) \<times> 'f runtime" where
  "createBunPtyAdapter rt =
     (case bunPtySpawn rt of
        Some f \<Rightarrow> (Inr \<lparr>backend = BunPty, adapter_spawn = f\<rparr>, rt)
      | None \<Rightarrow>
          (case import_bun_pty rt of
             Inl err \<Rightarrow> (Inl err, rt)
           | Inr f \<Rightarrow> (Inr \<lparr>backend = BunPty, adapter_spawn = f\<rparr>, rt\<lparr>bunPtySpawn := Some f\<rparr>)))"

text \<open>
  Modelled from the spec: \<open>debugLogger.debug\<close> is imported from debugLogger.js, which
  is not among the sources. Section 6 has the diagnostic channel receive the message
  with the causing error attached and never block or throw: the call adds the
  message and the error to the log.
\<close>

definition debug :: "string \<Rightarrow> js_error \<Rightarrow> 'f runtime \<Rightarrow> 'f runtime" where
  "debug msg err rt = rt\<lparr>debug_log := debug_log rt @ [(msg, err)]\<rparr>"

text \<open>
  \<^verbatim>\<open>
    const isBun = typeof (globalThis as any).Bun !== 'undefined';
    if (!isBun) { return null; }
    try {
      return await createBunPtyAdapter();
    } catch (e) {
      debugLogger.debug('Failed to create bun-pty adapter:', e);
      return null;
    }
  \<close>
  The result is \<open>Inr None\<close> for null, \<open>Inr (Some a)\<close> for an adapter, and \<open>Inl\<close> for an
  exception that reaches the caller.
\<close>

definition createPtyAdapter ::
  "'f runtime \<Rightarrow> (js_error + 'f PtyAdapter option) \<times> 'f runtime" where
  "createPtyAdapter rt =
     (if \<not> isBun rt then (Inr None, rt)
      else (case createBunPtyAdapter rt of
              (Inr a, rt') \<Rightarrow> (Inr (Some a), rt')
            | (Inl e, rt') \<Rightarrow> (Inr None, debug ''Failed to create bun-pty adapter:'' e rt')))"

section \<open>Properties of the relaunch supervisor\<close>

subsection \<open>Successive invocations of a runner\<close>

lemma state_after_Suc: "state_after r (Suc i) p = state_after r i (snd (r p))"
  using funpow_swap1 [of "\<lambda>q. snd (r q)" i p] by (simp add: state_after_def)

lemma state_after_Suc': "state_after r (Suc i) p = snd (r (state_after r i p))"
  by (simp add: state_after_def)

lemma nth_return_0: "nth_return r 0 p = fst (r p)"
  by (simp add: nth_return_def state_after_def)

lemma nth_return_Suc: "nth_return r (Suc i) p = nth_return r i (snd (r p))"
  by (simp add: nth_return_def state_after_Suc)

subsection \<open>One iteration of the loop\<close>


lemma relaunch_loop_exit:
  "r p = (Inr c, p') \<Longrightarrow> c \<noteq> s \<Longrightarrow>
   relaunch_loop s r n p = Some \<lparr>exit_code = c, runner_calls = Suc n, final = p'\<rparr>"
  by (subst relaunch_loop.simps) simp

lemma relaunch_loop_again:
  "r p = (Inr s, p') \<Longrightarrow> relaunch_loop s r n p = relaunch_loop s r (Suc n) p'"
  by (subst relaunch_loop.simps) simp

subsection \<open>One invocation of the runner\<close>

lemma runner_1_launch:
  "runner_1 a b p =
     launch (map Some a
             @ (if truthy_bool (opt_startsWith (at_index (argv p) 1) ''/$bunfs/'') then []
                else [at_index (argv p) 1])
             @ map Some b @ map Some (drop 2 (argv p))) p"
  by (simp add: runner_1_def launch_def Let_def)

lemma runner_launch:
  "runner a sp b p = launch (map Some a @ [sp] @ map Some b @ map Some (drop 2 (argv p))) p"
  by (simp add: runner_def launch_def Let_def)

lemma launch_close:
  "children p (spawned p) = Close code \<Longrightarrow>
   launch args p =
     (Inr (case code of Some c \<Rightarrow> c | None \<Rightarrow> 1),
      p\<lparr>spawned := Suc (spawned p),
        trace := trace p @ [StdinPause, Spawn (execPath p) args (newEnv p),
                           ChildEnded (Close code), StdinResume]\<rparr>)"
  by (simp add: launch_def Let_def stdin_pause_def stdin_resume_def emit_def spawn_child_def
      await_child_def newEnv_def)

lemma launch_error:
  "children p (spawned p) = EmitError err \<Longrightarrow>
   launch args p =
     (Inl err,
      p\<lparr>spawned := Suc (spawned p),
        trace := trace p @ [StdinPause, Spawn (execPath p) args (newEnv p),
                           ChildEnded (EmitError err)]\<rparr>)"
  by (simp add: launch_def Let_def stdin_pause_def stdin_resume_def emit_def spawn_child_def
      await_child_def newEnv_def)

lemma launch_error_close:
  "children p (spawned p) = EmitErrorThenClose err code \<Longrightarrow>
   launch args p =
     (Inl err,
      p\<lparr>spawned := Suc (spawned p),
        trace := trace p @ [StdinPause, Spawn (execPath p) args (newEnv p),
                           ChildEnded (EmitErrorThenClose err code), StdinResume]\<rparr>)"
  by (simp add: launch_def Let_def stdin_pause_def stdin_resume_def emit_def spawn_child_def
      await_child_def newEnv_def)

lemma launch_children:
  "children (snd (launch args p)) = children p
   \<and> spawned (snd (launch args p)) = Suc (spawned p)"
  by (cases "children p (spawned p)")
     (simp_all add: launch_close launch_error launch_error_close)

lemma launch_settles:
  "fst (launch args p) =
     (case children p (spawned p) of
        Close code \<Rightarrow> Inr (case code of Some c \<Rightarrow> c | None \<Rightarrow> 1)
      | EmitError err \<Rightarrow> Inl err
      | EmitErrorThenClose err code \<Rightarrow> Inl err)"
  by (cases "children p (spawned p)")
     (simp_all add: launch_close launch_error launch_error_close)

lemma launch_spawns:
  "spawns (snd (launch args p)) = spawns p @ [Spawn (execPath p) args (newEnv p)]"
  by (cases "children p (spawned p)")
     (simp_all add: launch_close launch_error launch_error_close spawns_def)

lemma runner_children:
  "children (snd (runner a sp b p)) = children p \<and> spawned (snd (runner a sp b p)) = Suc (spawned p)"
  by (simp add: runner_launch launch_children)

lemma state_after_runner:
  "children (state_after (runner a sp b) i p) = children p
   \<and> spawned (state_after (runner a sp b) i p) = spawned p + i"
  by (induction i) (simp_all add: state_after_Suc' runner_children, simp add: state_after_def)

lemma nth_return_runner:
  "nth_return (runner a sp b) i p =
     (case children p (spawned p + i) of
        Close code \<Rightarrow> Inr (case code of Some c \<Rightarrow> c | None \<Rightarrow> 1)
      | EmitError err \<Rightarrow> Inl err
      | EmitErrorThenClose err code \<Rightarrow> Inl err)"
  by (simp add: nth_return_def runner_launch launch_settles state_after_runner)

lemma runner_1_children:
  "children (snd (runner_1 a b p)) = children p \<and> spawned (snd (runner_1 a b p)) = Suc (spawned p)"
  by (simp add: runner_1_launch launch_children)

lemma state_after_runner_1:
  "children (state_after (runner_1 a b) i p) = children p
   \<and> spawned (state_after (runner_1 a b) i p) = spawned p + i"
  by (induction i) (simp_all add: state_after_Suc' runner_1_children, simp add: state_after_def)

lemma nth_return_runner_1:
  "nth_return (runner_1 a b) i p =
     (case children p (spawned p + i) of
        Close code \<Rightarrow> Inr (case code of Some c \<Rightarrow> c | None \<Rightarrow> 1)
      | EmitError err \<Rightarrow> Inl err
      | EmitErrorThenClose err code \<Rightarrow> Inl err)"
  by (simp add: nth_return_def runner_1_launch launch_settles state_after_runner_1)

subsection \<open>The relaunch loop\<close>

lemma relaunch_loop_sentinels:
  "(\<forall>i<K. nth_return r i p = Inr s) \<Longrightarrow> nth_return r K p = Inr C \<Longrightarrow> C \<noteq> s \<Longrightarrow>
   relaunch_loop s r n p =
     Some \<lparr>exit_code = C, runner_calls = Suc (n + K), final = state_after r (Suc K) p\<rparr>"
proof (induction K arbitrary: n p)
  case 0
  then have "fst (r p) = Inr C" by (simp add: nth_return_0)
  then obtain p' where rp: "r p = (Inr C, p')" by (cases "r p") auto
  have "state_after r (Suc 0) p = p'" using rp by (simp add: state_after_def)
  with rp 0 show ?case by (subst relaunch_loop.simps) simp
next
  case (Suc K)
  from Suc.prems(1) have "nth_return r 0 p = Inr s" by blast
  then obtain p' where rp: "r p = (Inr s, p')" by (cases "r p") (auto simp: nth_return_0)
  have a: "\<forall>i<K. nth_return r i p' = Inr s"
  proof (intro allI impI)
    fix i assume "i < K"
    then have "nth_return r (Suc i) p = Inr s" using Suc.prems(1) by simp
    then show "nth_return r i p' = Inr s" using rp by (simp add: nth_return_Suc)
  qed
  have b: "nth_return r K p' = Inr C" using Suc.prems(2) rp by (simp add: nth_return_Suc)
  have "relaunch_loop s r n p = relaunch_loop s r (Suc n) p'"
    using rp by (subst relaunch_loop.simps) simp
  also have "\<dots> = Some \<lparr>exit_code = C, runner_calls = Suc (Suc n + K), final = state_after r (Suc K) p'\<rparr>"
    by (rule Suc.IH [OF a b Suc.prems(3)])
  finally show ?case using rp by (simp add: state_after_Suc [of r "Suc K" p])
qed

lemma relaunch_loop_ends:
  "relaunch_loop s r n p = Some e \<Longrightarrow> \<exists>i. nth_return r i p \<noteq> Inr s"
proof (induction arbitrary: rule: relaunch_loop.raw_induct [rotated 1, consumes 1])
  case (1 loop s r n p e)
  show ?case
  proof (cases "fst (r p) = Inr s")
    case False
    then show ?thesis by (auto simp: nth_return_0 intro: exI [of _ 0])
  next
    case True
    then obtain p' where rp: "r p = (Inr s, p')" by (cases "r p") auto
    with 1(2) have "loop s r (Suc n) p' = Some e" by simp
    from 1(1) [OF this] obtain i where "nth_return r i p' \<noteq> Inr s" by blast
    then have "nth_return r (Suc i) p \<noteq> Inr s" using rp by (simp add: nth_return_Suc)
    then show ?thesis by blast
  qed
qed

text \<open>
  Claim C1. A runner whose successive invocations return the sentinel exactly \<open>K\<close>
  times and then a code \<open>C\<close> other than the sentinel is invoked exactly \<open>K + 1\<close>
  times by \<open>relaunchOnExitCode\<close>, which then ends the process with exit code \<open>C\<close>;
  and while the runner returns the sentinel at every invocation, the loop never ends.
\<close>

theorem relaunchOnExitCode_restarts:
  "((\<forall>i<K. nth_return r i p = Inr sentinel) \<and> nth_return r K p = Inr C \<and> C \<noteq> sentinel
      \<longrightarrow> relaunchOnExitCode sentinel r p =
            Some \<lparr>exit_code = C, runner_calls = Suc K, final = state_after r (Suc K) p\<rparr>)
   \<and> ((\<forall>i. nth_return r i p = Inr sentinel) \<longrightarrow> relaunchOnExitCode sentinel r p = None)"
proof (intro conjI impI)
  assume "(\<forall>i<K. nth_return r i p = Inr sentinel) \<and> nth_return r K p = Inr C \<and> C \<noteq> sentinel"
  then show "relaunchOnExitCode sentinel r p =
            Some \<lparr>exit_code = C, runner_calls = Suc K, final = state_after r (Suc K) p\<rparr>"
    using relaunch_loop_sentinels [of K r p sentinel C 0] by (simp add: relaunchOnExitCode_def)
next
  assume a: "\<forall>i. nth_return r i p = Inr sentinel"
  show "relaunchOnExitCode sentinel r p = None"
  proof (cases "relaunchOnExitCode sentinel r p")
    case (Some e)
    then show ?thesis using relaunch_loop_ends [of sentinel r 0 p e] a
      by (simp add: relaunchOnExitCode_def)
  qed simp
qed

theorem relaunchOnExitCode_restarts_witness:
  "nth_return (runner [] (Some ''/app/gemini.js'') [])
        0 (example_process Map.empty (\<lambda>n. if n < 2 then Close (Some 199) else Close (Some 0)))
      = Inr 199
   \<and> nth_return (runner [] (Some ''/app/gemini.js'') [])
        1 (example_process Map.empty (\<lambda>n. if n < 2 then Close (Some 199) else Close (Some 0)))
      = Inr 199
   \<and> nth_return (runner [] (Some ''/app/gemini.js'') [])
        2 (example_process Map.empty (\<lambda>n. if n < 2 then Close (Some 199) else Close (Some 0)))
      = Inr 0
   \<and> (0::int) \<noteq> 199
   \<and> relaunchOnExitCode 199 (runner [] (Some ''/app/gemini.js'') [])
        (example_process Map.empty (\<lambda>n. if n < 2 then Close (Some 199) else Close (Some 0)))
      = Some \<lparr>exit_code = 0, runner_calls = 3,
              final = state_after (runner [] (Some ''/app/gemini.js'') []) 3
                        (example_process Map.empty
                           (\<lambda>n. if n < 2 then Close (Some 199) else Close (Some 0)))\<rparr>
   \<and> (\<forall>i. nth_return (runner [] (Some ''/app/gemini.js'') [])
             i (example_process Map.empty (\<lambda>n. Close (Some 199))) = Inr 199)
   \<and> relaunchOnExitCode 199 (runner [] (Some ''/app/gemini.js'') [])
        (example_process Map.empty (\<lambda>n. Close (Some 199))) = None"
  using relaunchOnExitCode_restarts
          [of 2 "runner [] (Some ''/app/gemini.js'') []"
              "example_process Map.empty (\<lambda>n. if n < 2 then Close (Some 199) else Close (Some 0))"
              199 0]
        relaunchOnExitCode_restarts
          [of 0 "runner [] (Some ''/app/gemini.js'') []"
              "example_process Map.empty (\<lambda>n. Close (Some 199))" 199 0]
  by (simp add: nth_return_runner example_process_def)

subsection \<open>An invariant rule for the loop\<close>

lemma relaunch_loop_invariant:
  assumes run: "relaunch_loop s r n p = Some e"
    and init: "I n p"
    and again: "\<And>n q q'. I n q \<Longrightarrow> r q = (Inr s, q') \<Longrightarrow> I (Suc n) q'"
    and exit: "\<And>n q c q'. I n q \<Longrightarrow> r q = (Inr c, q') \<Longrightarrow> c \<noteq> s \<Longrightarrow>
                 J \<lparr>exit_code = c, runner_calls = Suc n, final = q'\<rparr>"
    and fail: "\<And>n q err q'. I n q \<Longrightarrow> r q = (Inl err, q') \<Longrightarrow>
                 J \<lparr>exit_code = 1, runner_calls = Suc n,
                    final = writeToStderr (fatal_message err) (stdin_resume q')\<rparr>"
  shows "J e"
  using run init again exit fail
proof (induction arbitrary: rule: relaunch_loop.raw_induct [rotated 1, consumes 1])
  case (1 loop s r n p e)
  obtain res p' where rp: "r p = (res, p')" by (cases "r p")
  show ?case
  proof (cases res)
    case (Inl err)
    with rp 1(2) have "e = \<lparr>exit_code = 1, runner_calls = Suc n,
                    final = writeToStderr (fatal_message err) (stdin_resume p')\<rparr>" by simp
    then show ?thesis using 1(6) [OF 1(3)] rp Inl by simp
  next
    case (Inr c)
    show ?thesis
    proof (cases "c = s")
      case False
      with rp Inr 1(2) have "e = \<lparr>exit_code = c, runner_calls = Suc n, final = p'\<rparr>" by simp
      then show ?thesis using 1(5) [OF 1(3) _ False] rp Inr by simp
    next
      case True
      with rp Inr 1(2) have l: "loop s r (Suc n) p' = Some e" by simp
      have i: "I (Suc n) p'" using 1(4) [OF 1(3)] rp Inr True by simp
      show ?thesis by (rule 1(1) [OF l i 1(4) 1(5) 1(6)])
    qed
  qed
qed

lemma relaunchApp_Exited:
  "relaunchAppInChildProcess s a b p = Some (Exited e) \<Longrightarrow>
   relaunch_loop s (runner a (at_index (argv p) 1) b) 0 p = Some e"
  by (auto simp: relaunchAppInChildProcess_def relaunchOnExitCode_def Let_def split: if_splits)

lemma relaunchApp_1_Exited:
  "relaunchAppInChildProcess_1 s a b p = Some (Exited e) \<Longrightarrow>
   relaunch_loop s (runner_1 a b) 0 p = Some e"
  by (auto simp: relaunchAppInChildProcess_1_def relaunchOnExitCode_def split: if_splits)



subsection \<open>The stdin protocol\<close>










subsection \<open>The compiled binary\<close>

text \<open>
  Claim C4, as the code has it. In the first listing a compiled binary, recognised
  by the prefix \<open>/$bunfs/\<close>, is relaunched: the call enters the loop and spawns a
  child, leaving the script path out of its arguments.
\<close>

theorem compiled_binary_first_listing_counterexample:
  "at_index (argv ((example_process Map.empty (\<lambda>n. Close (Some 0)))
       \<lparr>argv := [''/usr/local/bin/gemini'', ''/$bunfs/root/gemini'', ''--debug'']\<rparr>)) 1
     = Some ''/$bunfs/root/gemini''
   \<and> startsWith ''/$bunfs/root/gemini'' ''/$bunfs/''
   \<and> relaunchAppInChildProcess_1 199 [] []
        ((example_process Map.empty (\<lambda>n. Close (Some 0)))
           \<lparr>argv := [''/usr/local/bin/gemini'', ''/$bunfs/root/gemini'', ''--debug'']\<rparr>) =
      Some (Exited \<lparr>exit_code = 0, runner_calls = 1,
        final = (example_process Map.empty (\<lambda>n. Close (Some 0)))
          \<lparr>argv := [''/usr/local/bin/gemini'', ''/$bunfs/root/gemini'', ''--debug''],
           spawned := 1,
           trace := [StdinPause,
                     Spawn ''/usr/local/bin/bun'' [Some ''--debug'']
                       [''GEMINI_CLI_NO_RELAUNCH'' \<mapsto> ''true''],
                     ChildEnded (Close (Some 0)), StdinResume]\<rparr>\<rparr>)"
proof -
  let ?P = "(example_process Map.empty (\<lambda>n. Close (Some 0)))
           \<lparr>argv := [''/usr/local/bin/gemini'', ''/$bunfs/root/gemini'', ''--debug'']\<rparr>"
  have c: "children ?P (spawned ?P) = Close (Some 0)"
    by (simp add: example_process_def)
  have r: "runner_1 [] [] ?P =
      (Inr 0, ?P\<lparr>spawned := Suc (spawned ?P),
         trace := trace ?P @ [StdinPause, Spawn (execPath ?P) [Some ''--debug''] (newEnv ?P),
                            ChildEnded (Close (Some 0)), StdinResume]\<rparr>)"
    using launch_close [OF c, of "[Some ''--debug'']"]
    by (simp add: runner_1_launch example_process_def opt_startsWith_def startsWith_def
        truthy_bool_def at_index_def)
  have "(0::int) \<noteq> 199" by simp
  from relaunch_loop_exit [where r = "runner_1 [] []" and p = ?P and n = 0, OF r this]
  show ?thesis
    by (simp add: relaunchAppInChildProcess_1_def relaunchOnExitCode_def truthy_string_def
        example_process_def newEnv_def at_index_def startsWith_def)
qed

text \<open>
  Claim C4, amended. In the second listing (lines 105 to 152), when
  \<open>process.argv[1]\<close> starts with \<open>/$bunfs/\<close> or with \<open>B:/~BUN/\<close>,
  \<open>relaunchAppInChildProcess\<close> returns with the process as it was: no child is
  spawned and the loop is not entered. In the first listing (lines 31 to 74) there
  is no such return: unless the marker \<open>GEMINI_CLI_NO_RELAUNCH\<close> is set the call
  enters the loop, whose runner spawns a child at every invocation; the script path
  is left out of the arguments of the child when \<open>process.argv[1]\<close> starts with
  \<open>/$bunfs/\<close>, and is passed otherwise, also when it starts with \<open>B:/~BUN/\<close>.
\<close>

theorem compiled_binary_relaunch:
  "(at_index (argv p) 1 = Some scriptPath
      \<and> (startsWith scriptPath ''/$bunfs/'' \<or> startsWith scriptPath ''B:/~BUN/'')
      \<longrightarrow> relaunchAppInChildProcess sentinel a b p = Some (Returned p))
   \<and> (\<not> truthy_string (env p ''GEMINI_CLI_NO_RELAUNCH'')
      \<longrightarrow> relaunchAppInChildProcess_1 sentinel a b p =
            map_option Exited (relaunchOnExitCode sentinel (runner_1 a b) p))
   \<and> (at_index (argv p) 1 = Some scriptPath \<and> startsWith scriptPath ''/$bunfs/''
      \<longrightarrow> runner_1 a b p = launch (map Some a @ map Some b @ map Some (drop 2 (argv p))) p)
   \<and> (at_index (argv p) 1 = Some scriptPath \<and> \<not> startsWith scriptPath ''/$bunfs/''
      \<longrightarrow> runner_1 a b p =
            launch (map Some a @ [Some scriptPath] @ map Some b @ map Some (drop 2 (argv p))) p)
   \<and> spawns (snd (launch args p)) = spawns p @ [Spawn (execPath p) args (newEnv p)]
   \<and> spawned (snd (launch args p)) = Suc (spawned p)"
  by (auto simp: relaunchAppInChildProcess_def relaunchAppInChildProcess_1_def
      isCompiledBinary_def opt_startsWith_def truthy_bool_def Let_def runner_1_launch
      launch_spawns launch_children)

theorem compiled_binary_relaunch_witness:
  "at_index (argv ((example_process Map.empty (\<lambda>n. Close (Some 0)))
       \<lparr>argv := [''/usr/local/bin/gemini'', ''/$bunfs/root/gemini'', ''--debug'']\<rparr>)) 1
     = Some ''/$bunfs/root/gemini''
   \<and> startsWith ''/$bunfs/root/gemini'' ''/$bunfs/''
   \<and> relaunchAppInChildProcess 199 [] []
        ((example_process Map.empty (\<lambda>n. Close (Some 0)))
           \<lparr>argv := [''/usr/local/bin/gemini'', ''/$bunfs/root/gemini'', ''--debug'']\<rparr>) =
      Some (Returned ((example_process Map.empty (\<lambda>n. Close (Some 0)))
           \<lparr>argv := [''/usr/local/bin/gemini'', ''/$bunfs/root/gemini'', ''--debug'']\<rparr>))
   \<and> runner_1 [] []
        ((example_process Map.empty (\<lambda>n. Close (Some 0)))
           \<lparr>argv := [''/usr/local/bin/gemini'', ''/$bunfs/root/gemini'', ''--debug'']\<rparr>) =
      launch [Some ''--debug'']
        ((example_process Map.empty (\<lambda>n. Close (Some 0)))
           \<lparr>argv := [''/usr/local/bin/gemini'', ''/$bunfs/root/gemini'', ''--debug'']\<rparr>)
   \<and> \<not> truthy_string
        (env ((example_process Map.empty (\<lambda>n. Close (Some 0)))
           \<lparr>argv := [''/usr/local/bin/gemini'', ''/$bunfs/root/gemini'', ''--debug'']\<rparr>)
           ''GEMINI_CLI_NO_RELAUNCH'')
   \<and> relaunchAppInChildProcess_1 199 [] []
        ((example_process Map.empty (\<lambda>n. Close (Some 0)))
           \<lparr>argv := [''/usr/local/bin/gemini'', ''/$bunfs/root/gemini'', ''--debug'']\<rparr>) =
      map_option Exited (relaunchOnExitCode 199 (runner_1 [] [])
        ((example_process Map.empty (\<lambda>n. Close (Some 0)))
           \<lparr>argv := [''/usr/local/bin/gemini'', ''/$bunfs/root/gemini'', ''--debug'']\<rparr>))
   \<and> at_index (argv ((example_process Map.empty (\<lambda>n. Close (Some 0)))
       \<lparr>argv := [''C:/tools/gemini.exe'', ''B:/~BUN/root/gemini.exe'']\<rparr>)) 1
     = Some ''B:/~BUN/root/gemini.exe''
   \<and> startsWith ''B:/~BUN/root/gemini.exe'' ''B:/~BUN/''
   \<and> \<not> startsWith ''B:/~BUN/root/gemini.exe'' ''/$bunfs/''
   \<and> relaunchAppInChildProcess 199 [] []
        ((example_process Map.empty (\<lambda>n. Close (Some 0)))
           \<lparr>argv := [''C:/tools/gemini.exe'', ''B:/~BUN/root/gemini.exe'']\<rparr>) =
      Some (Returned ((example_process Map.empty (\<lambda>n. Close (Some 0)))
           \<lparr>argv := [''C:/tools/gemini.exe'', ''B:/~BUN/root/gemini.exe'']\<rparr>))
   \<and> runner_1 [] []
        ((example_process Map.empty (\<lambda>n. Close (Some 0)))
           \<lparr>argv := [''C:/tools/gemini.exe'', ''B:/~BUN/root/gemini.exe'']\<rparr>) =
      launch [Some ''B:/~BUN/root/gemini.exe'']
        ((example_process Map.empty (\<lambda>n. Close (Some 0)))
           \<lparr>argv := [''C:/tools/gemini.exe'', ''B:/~BUN/root/gemini.exe'']\<rparr>)"
  using compiled_binary_relaunch
          [where p = "(example_process Map.empty (\<lambda>n. Close (Some 0)))
                 \<lparr>argv := [''/usr/local/bin/gemini'', ''/$bunfs/root/gemini'', ''--debug'']\<rparr>"
             and scriptPath = "''/$bunfs/root/gemini''" and sentinel = 199
             and a = "[]" and b = "[]"]
        compiled_binary_relaunch
          [where p = "(example_process Map.empty (\<lambda>n. Close (Some 0)))
                 \<lparr>argv := [''C:/tools/gemini.exe'', ''B:/~BUN/root/gemini.exe'']\<rparr>"
             and scriptPath = "''B:/~BUN/root/gemini.exe''" and sentinel = 199
             and a = "[]" and b = "[]"]
  by (simp add: at_index_def startsWith_def example_process_def truthy_string_def)

subsection \<open>The marker that disables relaunching\<close>

lemma newEnv_marker: "newEnv p ''GEMINI_CLI_NO_RELAUNCH'' = Some ''true''"
  by (simp add: newEnv_def)

lemma launch_marks:
  "\<exists>ev. spawns (snd (launch args p)) = spawns p @ [ev]
        \<and> spawn_env ev ''GEMINI_CLI_NO_RELAUNCH'' = Some ''true''"
  by (simp add: launch_spawns newEnv_marker)

lemma state_after_spawns:
  assumes r: "\<And>q. \<exists>args. r q = launch args q"
  shows "\<forall>ev \<in> set (spawns (state_after r i p)).
     ev \<in> set (spawns p) \<or> spawn_env ev ''GEMINI_CLI_NO_RELAUNCH'' = Some ''true''"
proof (induction i)
  case 0
  then show ?case by (simp add: state_after_def)
next
  case (Suc i)
  from r obtain args where "r (state_after r i p) = launch args (state_after r i p)"
    by blast
  then obtain ev where
    "spawns (state_after r (Suc i) p) = spawns (state_after r i p) @ [ev]"
    "spawn_env ev ''GEMINI_CLI_NO_RELAUNCH'' = Some ''true''"
    using launch_marks [of args "state_after r i p"]
    by (auto simp: state_after_Suc')
  with Suc show ?case by auto
qed

lemma marked_step:
  "marked q \<Longrightarrow> spawns q' = spawns q @ [ev] \<Longrightarrow>
   spawn_env ev ''GEMINI_CLI_NO_RELAUNCH'' = Some ''true'' \<Longrightarrow> marked q'"
  by (simp add: marked_def)

lemma marked_exit: "marked q \<Longrightarrow> marked (writeToStderr m (stdin_resume q))"
  by (simp add: marked_def spawns_def writeToStderr_def stdin_resume_def emit_def)

lemma marked_launch:
  assumes "marked q" and "r q = launch args q" and "r q = (res, q')"
  shows "marked q'"
proof -
  from assms(2,3) have "q' = snd (launch args q)"
    by (metis snd_conv)
  with launch_marks [of args q] assms(1) show ?thesis
    by (auto intro: marked_step)
qed

lemma state_after_marks:
  assumes r: "\<And>q. \<exists>args. r q = launch args q"
  shows "map (\<lambda>ev. spawn_env ev ''GEMINI_CLI_NO_RELAUNCH'') (spawns (state_after r i p)) =
     map (\<lambda>ev. spawn_env ev ''GEMINI_CLI_NO_RELAUNCH'') (spawns p) @ replicate i (Some ''true'')"
proof (induction i)
  case 0
  then show ?case by (simp add: state_after_def)
next
  case (Suc i)
  from r obtain args where "r (state_after r i p) = launch args (state_after r i p)"
    by blast
  with Suc show ?case
    by (simp add: state_after_Suc' launch_spawns newEnv_marker replicate_append_same)
qed

lemma relaunch_loop_launch_marked:
  assumes run: "relaunch_loop s r n p = Some e" and init: "marked p"
    and r: "\<And>q. \<exists>args. r q = launch args q"
  shows "marked (final e)"
proof (rule relaunch_loop_invariant
    [where I = "\<lambda>n q. marked q" and J = "\<lambda>e. marked (final e)", OF run init])
  fix q q' :: process and c
  assume m: "marked q" and rq: "r q = (Inr c, q')"
  from r obtain args where "r q = launch args q" by blast
  with m rq show "marked q'"
    by (blast intro: marked_launch)
  then show "marked (final \<lparr>exit_code = c, runner_calls = Suc n, final = q'\<rparr>)" for n
    by simp
next
  fix q q' :: process and err n
  assume m: "marked q" and rq: "r q = (Inl err, q')"
  from r obtain args where "r q = launch args q" by blast
  with m rq have "marked q'"
    by (blast intro: marked_launch)
  then show "marked (final \<lparr>exit_code = 1, runner_calls = Suc n,
                  final = writeToStderr (fatal_message err) (stdin_resume q')\<rparr>)"
    by (simp add: marked_exit)
qed

text \<open>
  Claim C6, as the code has it. A marker that is present with the empty string as its
  value does not disable relaunching, in either listing: the test is the truthiness
  of \<open>process.env['GEMINI_CLI_NO_RELAUNCH']\<close>.
\<close>

theorem relaunch_marker_empty_counterexample:
  "env (example_process [''GEMINI_CLI_NO_RELAUNCH'' \<mapsto> ''''] (\<lambda>n. Close (Some 0)))
     ''GEMINI_CLI_NO_RELAUNCH'' \<noteq> None
   \<and> relaunchAppInChildProcess_1 199 [] []
        (example_process [''GEMINI_CLI_NO_RELAUNCH'' \<mapsto> ''''] (\<lambda>n. Close (Some 0))) =
      Some (Exited \<lparr>exit_code = 0, runner_calls = 1,
        final = (example_process [''GEMINI_CLI_NO_RELAUNCH'' \<mapsto> ''''] (\<lambda>n. Close (Some 0)))
          \<lparr>spawned := 1,
           trace := [StdinPause,
                     Spawn ''/usr/local/bin/bun'' [Some ''/app/gemini.js'', Some ''--debug'']
                       [''GEMINI_CLI_NO_RELAUNCH'' \<mapsto> ''true''],
                     ChildEnded (Close (Some 0)), StdinResume]\<rparr>\<rparr>)
   \<and> relaunchAppInChildProcess 199 [] []
        (example_process [''GEMINI_CLI_NO_RELAUNCH'' \<mapsto> ''''] (\<lambda>n. Close (Some 0))) =
      Some (Exited \<lparr>exit_code = 0, runner_calls = 1,
        final = (example_process [''GEMINI_CLI_NO_RELAUNCH'' \<mapsto> ''''] (\<lambda>n. Close (Some 0)))
          \<lparr>spawned := 1,
           trace := [StdinPause,
                     Spawn ''/usr/local/bin/bun'' [Some ''/app/gemini.js'', Some ''--debug'']
                       [''GEMINI_CLI_NO_RELAUNCH'' \<mapsto> ''true''],
                     ChildEnded (Close (Some 0)), StdinResume]\<rparr>\<rparr>)"
proof -
  let ?P = "example_process [''GEMINI_CLI_NO_RELAUNCH'' \<mapsto> ''''] (\<lambda>n. Close (Some 0))"
  let ?args = "[Some ''/app/gemini.js'', Some ''--debug'']"
  let ?Q = "?P\<lparr>spawned := Suc (spawned ?P),
         trace := trace ?P @ [StdinPause, Spawn (execPath ?P) ?args (newEnv ?P),
                            ChildEnded (Close (Some 0)), StdinResume]\<rparr>"
  have c: "children ?P (spawned ?P) = Close (Some 0)"
    by (simp add: example_process_def)
  have r1: "runner_1 [] [] ?P = (Inr 0, ?Q)"
    using launch_close [OF c, of ?args]
    by (simp add: runner_1_launch example_process_def opt_startsWith_def startsWith_def
        truthy_bool_def at_index_def)
  have r2: "runner [] (Some ''/app/gemini.js'') [] ?P = (Inr 0, ?Q)"
    using launch_close [OF c, of ?args]
    by (simp add: runner_launch example_process_def)
  have ne: "(0::int) \<noteq> 199" by simp
  from relaunch_loop_exit [where r = "runner_1 [] []" and p = ?P and n = 0, OF r1 ne]
    relaunch_loop_exit
      [where r = "runner [] (Some ''/app/gemini.js'') []" and p = ?P and n = 0, OF r2 ne]
  show ?thesis
    by (simp add: relaunchAppInChildProcess_1_def relaunchAppInChildProcess_def
        relaunchOnExitCode_def truthy_string_def isCompiledBinary_def opt_startsWith_def
        startsWith_def truthy_bool_def at_index_def example_process_def newEnv_def)
qed

text \<open>
  Claim C6, amended. When \<open>GEMINI_CLI_NO_RELAUNCH\<close> is set to a non-empty value at
  the start, \<open>relaunchAppInChildProcess\<close>, in either listing, returns with the
  process as it was (no child spawned, the loop not entered); and every child that
  any number of invocations of the runner of either listing spawns, and every child
  of a whole run that ends, is given an environment with the marker set to \<open>true\<close>.
\<close>

theorem relaunch_disabled_by_marker:
  "(truthy_string (env p ''GEMINI_CLI_NO_RELAUNCH'') \<longrightarrow>
      relaunchAppInChildProcess_1 sentinel a b p = Some (Returned p)
      \<and> relaunchAppInChildProcess sentinel a b p = Some (Returned p))
   \<and> (\<forall>ev \<in> set (spawns (state_after (runner_1 a b) i p)).
        ev \<in> set (spawns p) \<or> spawn_env ev ''GEMINI_CLI_NO_RELAUNCH'' = Some ''true'')
   \<and> (\<forall>ev \<in> set (spawns (state_after (runner a sp b) i p)).
        ev \<in> set (spawns p) \<or> spawn_env ev ''GEMINI_CLI_NO_RELAUNCH'' = Some ''true'')
   \<and> (trace p = [] \<and> relaunchAppInChildProcess_1 sentinel a b p = Some (Exited e) \<longrightarrow>
        (\<forall>ev \<in> set (spawns (final e)).
           spawn_env ev ''GEMINI_CLI_NO_RELAUNCH'' = Some ''true''))
   \<and> (trace p = [] \<and> relaunchAppInChildProcess sentinel a b p = Some (Exited e) \<longrightarrow>
        (\<forall>ev \<in> set (spawns (final e)).
           spawn_env ev ''GEMINI_CLI_NO_RELAUNCH'' = Some ''true''))"
proof -
  have r1: "\<exists>args. runner_1 a b q = launch args q" for q
    by (blast intro: runner_1_launch)
  have r2: "\<exists>args. runner a sp' b q = launch args q" for q sp'
    by (blast intro: runner_launch)
  have whole_1: "\<forall>ev \<in> set (spawns (final e)).
           spawn_env ev ''GEMINI_CLI_NO_RELAUNCH'' = Some ''true''"
    if h: "trace p = [] \<and> relaunchAppInChildProcess_1 sentinel a b p = Some (Exited e)"
  proof -
    from h have l: "relaunch_loop sentinel (runner_1 a b) 0 p = Some e"
      by (blast dest: relaunchApp_1_Exited)
    from h have m: "marked p"
      by (simp add: marked_def spawns_def)
    have "marked (final e)"
      by (rule relaunch_loop_launch_marked [OF l m r1])
    then show ?thesis by (simp add: marked_def)
  qed
  have whole: "\<forall>ev \<in> set (spawns (final e)).
           spawn_env ev ''GEMINI_CLI_NO_RELAUNCH'' = Some ''true''"
    if h: "trace p = [] \<and> relaunchAppInChildProcess sentinel a b p = Some (Exited e)"
  proof -
    from h have l: "relaunch_loop sentinel (runner a (at_index (argv p) 1) b) 0 p = Some e"
      by (blast dest: relaunchApp_Exited)
    from h have m: "marked p"
      by (simp add: marked_def spawns_def)
    have "marked (final e)"
      by (rule relaunch_loop_launch_marked [OF l m r2])
    then show ?thesis by (simp add: marked_def)
  qed
  have guard: "relaunchAppInChildProcess_1 sentinel a b p = Some (Returned p)
      \<and> relaunchAppInChildProcess sentinel a b p = Some (Returned p)"
    if "truthy_string (env p ''GEMINI_CLI_NO_RELAUNCH'')"
    using that by (simp add: relaunchAppInChildProcess_1_def relaunchAppInChildProcess_def)
  from guard state_after_spawns [of "runner_1 a b" i p, OF r1]
    state_after_spawns [of "runner a sp b" i p, OF r2] whole_1 whole
  show ?thesis by blast
qed

theorem relaunch_disabled_by_marker_witness:
  "truthy_string (env (example_process [''GEMINI_CLI_NO_RELAUNCH'' \<mapsto> ''true'']
                        (\<lambda>n. Close (Some 0))) ''GEMINI_CLI_NO_RELAUNCH'')
   \<and> relaunchAppInChildProcess_1 199 [] []
        (example_process [''GEMINI_CLI_NO_RELAUNCH'' \<mapsto> ''true''] (\<lambda>n. Close (Some 0))) =
      Some (Returned
        (example_process [''GEMINI_CLI_NO_RELAUNCH'' \<mapsto> ''true''] (\<lambda>n. Close (Some 0))))
   \<and> relaunchAppInChildProcess 199 [] []
        (example_process [''GEMINI_CLI_NO_RELAUNCH'' \<mapsto> ''true''] (\<lambda>n. Close (Some 0))) =
      Some (Returned
        (example_process [''GEMINI_CLI_NO_RELAUNCH'' \<mapsto> ''true''] (\<lambda>n. Close (Some 0))))
   \<and> trace (example_process Map.empty (\<lambda>n. if n = 0 then Close (Some 199) else Close (Some 0))) = []
   \<and> relaunchAppInChildProcess_1 199 [] []
        (example_process Map.empty (\<lambda>n. if n = 0 then Close (Some 199) else Close (Some 0))) =
      Some (Exited \<lparr>exit_code = 0, runner_calls = 2,
        final = state_after (runner_1 [] []) 2
          (example_process Map.empty (\<lambda>n. if n = 0 then Close (Some 199) else Close (Some 0)))\<rparr>)
   \<and> map (\<lambda>ev. spawn_env ev ''GEMINI_CLI_NO_RELAUNCH'')
        (spawns (state_after (runner_1 [] []) 2
          (example_process Map.empty (\<lambda>n. if n = 0 then Close (Some 199) else Close (Some 0))))) =
      [Some ''true'', Some ''true'']
   \<and> relaunchAppInChildProcess 199 [] []
        (example_process Map.empty (\<lambda>n. if n = 0 then Close (Some 199) else Close (Some 0))) =
      Some (Exited \<lparr>exit_code = 0, runner_calls = 2,
        final = state_after (runner [] (Some ''/app/gemini.js'') []) 2
          (example_process Map.empty (\<lambda>n. if n = 0 then Close (Some 199) else Close (Some 0)))\<rparr>)
   \<and> map (\<lambda>ev. spawn_env ev ''GEMINI_CLI_NO_RELAUNCH'')
        (spawns (state_after (runner [] (Some ''/app/gemini.js'') []) 2
          (example_process Map.empty (\<lambda>n. if n = 0 then Close (Some 199) else Close (Some 0))))) =
      [Some ''true'', Some ''true'']"
proof -
  let ?M = "example_process [''GEMINI_CLI_NO_RELAUNCH'' \<mapsto> ''true''] (\<lambda>n. Close (Some 0))"
  let ?P = "example_process Map.empty (\<lambda>n. if n = 0 then Close (Some 199) else Close (Some 0))"
  let ?r1 = "runner_1 [] []"
  let ?r = "runner [] (Some ''/app/gemini.js'') []"
  have run_1: "relaunchAppInChildProcess_1 199 [] [] ?P =
       Some (Exited \<lparr>exit_code = 0, runner_calls = 2, final = state_after ?r1 2 ?P\<rparr>)"
    using relaunch_loop_sentinels [of 1 ?r1 ?P 199 0 0]
    by (simp add: relaunchAppInChildProcess_1_def relaunchOnExitCode_def truthy_string_def
        nth_return_runner_1 example_process_def numeral_2_eq_2)
  have run: "relaunchAppInChildProcess 199 [] [] ?P =
       Some (Exited \<lparr>exit_code = 0, runner_calls = 2, final = state_after ?r 2 ?P\<rparr>)"
    using relaunch_loop_sentinels [of 1 ?r ?P 199 0 0]
    by (simp add: relaunchAppInChildProcess_def relaunchOnExitCode_def truthy_string_def
        isCompiledBinary_def opt_startsWith_def startsWith_def truthy_bool_def at_index_def
        nth_return_runner example_process_def numeral_2_eq_2)
  have g: "truthy_string (env ?M ''GEMINI_CLI_NO_RELAUNCH'')
     \<and> relaunchAppInChildProcess_1 199 [] [] ?M = Some (Returned ?M)
     \<and> relaunchAppInChildProcess 199 [] [] ?M = Some (Returned ?M)"
    using relaunch_disabled_by_marker [where p = ?M and sentinel = 199 and a = "[]" and b = "[]"]
    by (simp add: example_process_def truthy_string_def)
  have s1: "map (\<lambda>ev. spawn_env ev ''GEMINI_CLI_NO_RELAUNCH'') (spawns (state_after ?r1 2 ?P))
      = [Some ''true'', Some ''true'']"
    using relaunch_disabled_by_marker
            [where p = ?P and sentinel = 199 and a = "[]" and b = "[]"
               and e = "\<lparr>exit_code = 0, runner_calls = 2, final = state_after ?r1 2 ?P\<rparr>"]
          run_1
    by (subst state_after_marks [of ?r1, OF exI, OF runner_1_launch])
       (simp add: spawns_def example_process_def numeral_2_eq_2)
  have s2: "map (\<lambda>ev. spawn_env ev ''GEMINI_CLI_NO_RELAUNCH'') (spawns (state_after ?r 2 ?P))
      = [Some ''true'', Some ''true'']"
    using relaunch_disabled_by_marker
            [where p = ?P and sentinel = 199 and a = "[]" and b = "[]"
               and e = "\<lparr>exit_code = 0, runner_calls = 2, final = state_after ?r 2 ?P\<rparr>"]
          run
    by (subst state_after_marks [of ?r, OF exI, OF runner_launch])
       (simp add: spawns_def example_process_def numeral_2_eq_2)
  have t: "trace ?P = []"
    by (simp add: example_process_def)
  from g t run_1 s1 run s2 show ?thesis
    by blast
qed

subsection \<open>A child that closes with a null code\<close>

text \<open>
  Claim C10. When the child closes with a null code, the runner, in either listing,
  resolves with 1, and unless 1 is the sentinel the parent exits with code 1 after
  that one invocation; the trace holds the pause, the spawn, the end of the child
  and the resume, and no report of a signal. (The second listing spawns a child only
  when the program is not a compiled binary.)
\<close>

theorem null_exit_code_becomes_1:
  "(\<not> truthy_string (env p ''GEMINI_CLI_NO_RELAUNCH'')
      \<and> children p (spawned p) = Close None
      \<longrightarrow> fst (runner_1 a b p) = Inr 1
          \<and> (sentinel \<noteq> 1 \<longrightarrow>
               relaunchAppInChildProcess_1 sentinel a b p =
                 Some (Exited \<lparr>exit_code = 1, runner_calls = 1,
                   final = p\<lparr>spawned := Suc (spawned p),
                     trace := trace p @
                       [StdinPause,
                        Spawn (execPath p)
                          (map Some a
                           @ (if truthy_bool (opt_startsWith (at_index (argv p) 1) ''/$bunfs/'')
                              then [] else [at_index (argv p) 1])
                           @ map Some b @ map Some (drop 2 (argv p))) (newEnv p),
                        ChildEnded (Close None), StdinResume]\<rparr>\<rparr>)))
   \<and> (\<not> truthy_string (env p ''GEMINI_CLI_NO_RELAUNCH'')
      \<and> \<not> isCompiledBinary (at_index (argv p) 1)
      \<and> children p (spawned p) = Close None
      \<longrightarrow> fst (runner a (at_index (argv p) 1) b p) = Inr 1
          \<and> (sentinel \<noteq> 1 \<longrightarrow>
               relaunchAppInChildProcess sentinel a b p =
                 Some (Exited \<lparr>exit_code = 1, runner_calls = 1,
                   final = p\<lparr>spawned := Suc (spawned p),
                     trace := trace p @
                       [StdinPause,
                        Spawn (execPath p)
                          (map Some a @ [at_index (argv p) 1] @ map Some b
                             @ map Some (drop 2 (argv p))) (newEnv p),
                        ChildEnded (Close None), StdinResume]\<rparr>\<rparr>)))"
proof -
  let ?args1 = "map Some a
                @ (if truthy_bool (opt_startsWith (at_index (argv p) 1) ''/$bunfs/'')
                   then [] else [at_index (argv p) 1])
                @ map Some b @ map Some (drop 2 (argv p))"
  let ?args = "map Some a @ [at_index (argv p) 1] @ map Some b @ map Some (drop 2 (argv p))"
  have first: "fst (runner_1 a b p) = Inr 1
     \<and> (sentinel \<noteq> 1 \<longrightarrow>
          relaunchAppInChildProcess_1 sentinel a b p =
            Some (Exited \<lparr>exit_code = 1, runner_calls = 1,
              final = p\<lparr>spawned := Suc (spawned p),
                trace := trace p @ [StdinPause, Spawn (execPath p) ?args1 (newEnv p),
                                   ChildEnded (Close None), StdinResume]\<rparr>\<rparr>))"
    if m: "\<not> truthy_string (env p ''GEMINI_CLI_NO_RELAUNCH'')"
      and c: "children p (spawned p) = Close None"
  proof -
    have r: "runner_1 a b p =
        (Inr 1, p\<lparr>spawned := Suc (spawned p),
           trace := trace p @ [StdinPause, Spawn (execPath p) ?args1 (newEnv p),
                              ChildEnded (Close None), StdinResume]\<rparr>)"
      using launch_close [OF c, of ?args1] by (simp add: runner_1_launch)
    show ?thesis
    proof (intro conjI impI)
      show "fst (runner_1 a b p) = Inr 1" using r by simp
      assume "sentinel \<noteq> 1"
      then have "(1::int) \<noteq> sentinel" by simp
      from relaunch_loop_exit [where r = "runner_1 a b" and p = p and n = 0, OF r this] m
      show "relaunchAppInChildProcess_1 sentinel a b p =
            Some (Exited \<lparr>exit_code = 1, runner_calls = 1,
              final = p\<lparr>spawned := Suc (spawned p),
                trace := trace p @ [StdinPause, Spawn (execPath p) ?args1 (newEnv p),
                                   ChildEnded (Close None), StdinResume]\<rparr>\<rparr>)"
        by (simp add: relaunchAppInChildProcess_1_def relaunchOnExitCode_def)
    qed
  qed
  have second: "fst (runner a (at_index (argv p) 1) b p) = Inr 1
     \<and> (sentinel \<noteq> 1 \<longrightarrow>
          relaunchAppInChildProcess sentinel a b p =
            Some (Exited \<lparr>exit_code = 1, runner_calls = 1,
              final = p\<lparr>spawned := Suc (spawned p),
                trace := trace p @ [StdinPause, Spawn (execPath p) ?args (newEnv p),
                                   ChildEnded (Close None), StdinResume]\<rparr>\<rparr>))"
    if m: "\<not> truthy_string (env p ''GEMINI_CLI_NO_RELAUNCH'')"
      and nc: "\<not> isCompiledBinary (at_index (argv p) 1)"
      and c: "children p (spawned p) = Close None"
  proof -
    have r: "runner a (at_index (argv p) 1) b p =
        (Inr 1, p\<lparr>spawned := Suc (spawned p),
           trace := trace p @ [StdinPause, Spawn (execPath p) ?args (newEnv p),
                              ChildEnded (Close None), StdinResume]\<rparr>)"
      using launch_close [OF c, of ?args] by (simp add: runner_launch)
    show ?thesis
    proof (intro conjI impI)
      show "fst (runner a (at_index (argv p) 1) b p) = Inr 1" using r by simp
      assume "sentinel \<noteq> 1"
      then have "(1::int) \<noteq> sentinel" by simp
      from relaunch_loop_exit
        [where r = "runner a (at_index (argv p) 1) b" and p = p and n = 0, OF r this] m nc
      show "relaunchAppInChildProcess sentinel a b p =
            Some (Exited \<lparr>exit_code = 1, runner_calls = 1,
              final = p\<lparr>spawned := Suc (spawned p),
                trace := trace p @ [StdinPause, Spawn (execPath p) ?args (newEnv p),
                                   ChildEnded (Close None), StdinResume]\<rparr>\<rparr>)"
        by (simp add: relaunchAppInChildProcess_def relaunchOnExitCode_def)
    qed
  qed
  from first second show ?thesis by blast
qed

theorem null_exit_code_becomes_1_witness:
  "\<not> truthy_string (env (example_process Map.empty (\<lambda>n. Close None)) ''GEMINI_CLI_NO_RELAUNCH'')
   \<and> \<not> isCompiledBinary (at_index (argv (example_process Map.empty (\<lambda>n. Close None))) 1)
   \<and> children (example_process Map.empty (\<lambda>n. Close None))
        (spawned (example_process Map.empty (\<lambda>n. Close None))) = Close None
   \<and> (199::int) \<noteq> 1
   \<and> fst (runner_1 [] [] (example_process Map.empty (\<lambda>n. Close None))) = Inr 1
   \<and> relaunchAppInChildProcess_1 199 [] [] (example_process Map.empty (\<lambda>n. Close None)) =
       Some (Exited \<lparr>exit_code = 1, runner_calls = 1,
         final = (example_process Map.empty (\<lambda>n. Close None))
           \<lparr>spawned := 1,
            trace := [StdinPause,
                      Spawn ''/usr/local/bin/bun'' [Some ''/app/gemini.js'', Some ''--debug'']
                        [''GEMINI_CLI_NO_RELAUNCH'' \<mapsto> ''true''],
                      ChildEnded (Close None), StdinResume]\<rparr>\<rparr>)
   \<and> fst (runner [] (Some ''/app/gemini.js'') [] (example_process Map.empty (\<lambda>n. Close None)))
       = Inr 1
   \<and> relaunchAppInChildProcess 199 [] [] (example_process Map.empty (\<lambda>n. Close None)) =
       Some (Exited \<lparr>exit_code = 1, runner_calls = 1,
         final = (example_process Map.empty (\<lambda>n. Close None))
           \<lparr>spawned := 1,
            trace := [StdinPause,
                      Spawn ''/usr/local/bin/bun'' [Some ''/app/gemini.js'', Some ''--debug'']
                        [''GEMINI_CLI_NO_RELAUNCH'' \<mapsto> ''true''],
                      ChildEnded (Close None), StdinResume]\<rparr>\<rparr>)"
  using null_exit_code_becomes_1
          [where p = "example_process Map.empty (\<lambda>n. Close None)" and a = "[]" and b = "[]"
             and sentinel = 199]
  by (simp add: truthy_string_def isCompiledBinary_def opt_startsWith_def startsWith_def
      truthy_bool_def at_index_def example_process_def newEnv_def)

section \<open>Properties of the PTY adapter\<close>

subsection \<open>Setting a property\<close>

lemma set_property_keys:
  "map fst (set_property key v obj) =
     (if key \<in> set (map fst obj) \<or> key = ''__proto__'' then map fst obj
      else map fst obj @ [key])"
proof (induction obj)
  case Nil
  show ?case by simp
next
  case (Cons x obj)
  obtain k w where x: "x = (k, w)" by (cases x)
  show ?case
  proof (cases "k = key")
    case True
    with x show ?thesis by simp
  next
    case False
    with x Cons show ?thesis by simp
  qed
qed

lemma set_property_distinct:
  "distinct (map fst obj) \<Longrightarrow> distinct (map fst (set_property key v obj))"
  by (simp add: set_property_keys)

lemma map_of_set_property:
  "map_of (set_property key v obj) =
     (if key = ''__proto__'' \<and> key \<notin> set (map fst obj) then map_of obj
      else (map_of obj)(key \<mapsto> v))"
proof (induction obj)
  case Nil
  show ?case by simp
next
  case (Cons x obj)
  obtain k w where x: "x = (k, w)" by (cases x)
  show ?case
  proof (cases "k = key")
    case True
    with x show ?thesis by auto
  next
    case False
    with x Cons show ?thesis by auto
  qed
qed

lemma set_property_no_proto:
  "''__proto__'' \<notin> set (map fst obj) \<Longrightarrow>
   ''__proto__'' \<notin> set (map fst (set_property key v obj))"
  by (auto simp: set_property_keys)

lemma set_property_snd:
  "snd ` set (set_property key v obj) \<subseteq> insert v (snd ` set obj)"
proof (induction obj)
  case Nil
  show ?case by simp
next
  case (Cons x obj)
  obtain k w where x: "x = (k, w)" by (cases x)
  show ?case
  proof (cases "k = key")
    case True
    with x show ?thesis by auto
  next
    case False
    with x Cons show ?thesis by auto
  qed
qed

subsection \<open>The sanitized environment\<close>

lemma clean_loop_distinct:
  "distinct (map fst acc) \<Longrightarrow> distinct (map fst (clean_loop entries acc))"
  by (induction entries acc rule: clean_loop.induct) (simp_all add: set_property_distinct)

lemma clean_loop_no_proto:
  "''__proto__'' \<notin> set (map fst acc) \<Longrightarrow>
   ''__proto__'' \<notin> set (map fst (clean_loop entries acc))"
proof (induction entries arbitrary: acc)
  case Nil
  then show ?case by simp
next
  case (Cons x entries)
  obtain key v where x: "x = (key, v)" by (cases x)
  show ?case
  proof (cases "v \<noteq> Undefined \<and> v \<noteq> Null")
    case True
    have "''__proto__'' \<notin> set (map fst (set_property key (Str (String v)) acc))"
      using Cons.prems by (rule set_property_no_proto)
    from Cons.IH [OF this] x True show ?thesis by simp
  next
    case False
    with Cons.IH [OF Cons.prems] x show ?thesis by auto
  qed
qed

lemma clean_loop_snd:
  "snd ` set (clean_loop entries acc) \<subseteq> snd ` set acc \<union> range Str"
proof (induction entries arbitrary: acc)
  case Nil
  show ?case by simp
next
  case (Cons x entries)
  obtain key v where x: "x = (key, v)" by (cases x)
  show ?case
  proof (cases "v \<noteq> Undefined \<and> v \<noteq> Null")
    case True
    have "snd ` set (clean_loop entries (set_property key (Str (String v)) acc))
            \<subseteq> snd ` set (set_property key (Str (String v)) acc) \<union> range Str"
      by (rule Cons.IH)
    also have "\<dots> \<subseteq> insert (Str (String v)) (snd ` set acc) \<union> range Str"
      using set_property_snd [of key "Str (String v)" acc] by blast
    also have "\<dots> \<subseteq> snd ` set acc \<union> range Str"
      by blast
    finally show ?thesis using x True by simp
  next
    case False
    then show ?thesis using x Cons.IH [of acc] by auto
  qed
qed

lemma clean_loop_strings:
  "(k, w) \<in> set (clean_loop entries []) \<Longrightarrow> \<exists>s. w = Str s"
proof -
  assume "(k, w) \<in> set (clean_loop entries [])"
  then have "w \<in> snd ` set (clean_loop entries [])" by force
  then have "w \<in> range Str" using clean_loop_snd [of entries "[]"] by auto
  then show ?thesis by auto
qed

lemma defined_value_Cons:
  "defined_value ((k, v) # rest) key =
     (case defined_value rest key of
        Some w \<Rightarrow> Some w
      | None \<Rightarrow> if v \<noteq> Undefined \<and> v \<noteq> Null \<and> k = key then Some v else None)"
  by (auto simp: defined_value_def map_add_def split: option.splits)

lemma clean_loop_lookup:
  "key \<noteq> ''__proto__'' \<Longrightarrow>
   map_of (clean_loop entries acc) key =
     (case defined_value entries key of
        Some v \<Rightarrow> Some (Str (String v))
      | None \<Rightarrow> map_of acc key)"
proof (induction entries acc rule: clean_loop.induct)
  case (1 cleanEnv)
  then show ?case by (simp add: defined_value_def)
next
  case (2 k v rest cleanEnv)
  show ?case
  proof (cases "v \<noteq> Undefined \<and> v \<noteq> Null")
    case True
    have sp: "map_of (set_property k (Str (String v)) cleanEnv) key =
        (if k = key then Some (Str (String v)) else map_of cleanEnv key)"
      using 2(2) by (auto simp: map_of_set_property)
    from 2(1) [OF 2(2)] True
    have "map_of (clean_loop rest (set_property k (Str (String v)) cleanEnv)) key =
        (case defined_value rest key of
           Some v \<Rightarrow> Some (Str (String v))
         | None \<Rightarrow> map_of (set_property k (Str (String v)) cleanEnv) key)"
      by simp
    with sp True show ?thesis
      by (cases "k = key") (simp_all add: defined_value_Cons split: option.splits)
  next
    case False
    from 2(1) [OF 2(2)] False
    have "map_of (clean_loop rest cleanEnv) key =
        (case defined_value rest key of
           Some v \<Rightarrow> Some (Str (String v))
         | None \<Rightarrow> map_of cleanEnv key)"
      by auto
    with False show ?thesis
      by (auto simp: defined_value_Cons split: option.splits)
  qed
qed

lemma clean_loop_proto:
  "map_of (clean_loop entries []) ''__proto__'' = None"
  using clean_loop_no_proto [of "[]" entries]
  by (simp add: map_of_eq_None_iff)

text \<open>
  Claim C5. For every options object, the environment that \<open>spawn\<close> hands to
  bun-pty is \<open>cleanEnv\<close>: each of its values is a string, no key appears twice, and
  the value under a key is \<open>String\<close> of the value the key has among the entries that
  are neither undefined nor null, so an entry whose value is undefined or null is
  dropped and every value that remains is one coerced to a string. (The key
  \<open>__proto__\<close> never remains: the assignment to it adds no property.)
\<close>

theorem spawn_env_sanitized:
  "\<exists>opts. spawn command args options = BunSpawn command args opts
     \<and> bun_env opts = cleanEnv options
     \<and> (\<forall>(k, v) \<in> set (bun_env opts). \<exists>s. v = Str s)
     \<and> distinct (map fst (bun_env opts))
     \<and> (\<forall>key. map_of (bun_env opts) key =
          (if key = ''__proto__'' then None
           else map_option (\<lambda>v. Str (String v))
                  (defined_value (case options_env options of None \<Rightarrow> [] | Some es \<Rightarrow> es)
                     key)))"
proof -
  have s: "\<forall>(k, v) \<in> set (cleanEnv options). \<exists>s. v = Str s"
  proof (cases "options_env options")
    case None
    then show ?thesis by (simp add: cleanEnv_def)
  next
    case (Some es)
    then show ?thesis using clean_loop_strings [of _ _ es] by (auto simp: cleanEnv_def)
  qed
  have d: "distinct (map fst (cleanEnv options))"
    by (simp add: cleanEnv_def clean_loop_distinct split: option.splits)
  have l: "\<forall>key. map_of (cleanEnv options) key =
          (if key = ''__proto__'' then None
           else map_option (\<lambda>v. Str (String v))
                  (defined_value (case options_env options of None \<Rightarrow> [] | Some es \<Rightarrow> es)
                     key))"
  proof (cases "options_env options")
    case None
    then show ?thesis by (simp add: cleanEnv_def defined_value_def)
  next
    case (Some es)
    then show ?thesis
      by (auto simp: cleanEnv_def clean_loop_lookup clean_loop_proto split: option.splits)
  qed
  show ?thesis
    using s d l by (simp add: spawn_def)
qed

theorem spawn_env_sanitized_witness:
  "spawn ''cat'' []
     \<lparr>name = None, cols = None, rows = None, cwd = None,
      options_env = Some [(''PATH'', Str ''/bin''), (''DEBUG'', Undefined),
                          (''CI'', Bool True), (''HOME'', Null),
                          (''__proto__'', Str ''x'')],
      handleFlowControl = None\<rparr> =
   BunSpawn ''cat'' []
     \<lparr>bun_name = ''xterm-256color'', bun_cols = 80, bun_rows = 24, bun_cwd = None,
      bun_env = [(''PATH'', Str ''/bin''), (''CI'', Str ''true'')]\<rparr>
   \<and> distinct (map fst [(''PATH'', Str ''/bin''), (''CI'', Str ''true'')])
   \<and> defined_value [(''PATH'', Str ''/bin''), (''DEBUG'', Undefined),
                     (''CI'', Bool True), (''HOME'', Null),
                          (''__proto__'', Str ''x'')] ''CI'' = Some (Bool True)
   \<and> defined_value [(''PATH'', Str ''/bin''), (''DEBUG'', Undefined),
                     (''CI'', Bool True), (''HOME'', Null),
                          (''__proto__'', Str ''x'')] ''HOME'' = None"
  using spawn_env_sanitized
          [of "''cat''" "[]"
              "\<lparr>name = None, cols = None, rows = None, cwd = None,
                options_env = Some [(''PATH'', Str ''/bin''), (''DEBUG'', Undefined),
                                    (''CI'', Bool True), (''HOME'', Null),
                          (''__proto__'', Str ''x'')],
                handleFlowControl = None\<rparr>"]
  by (simp add: spawn_def cleanEnv_def defined_value_def)

subsection \<open>Flow control\<close>

text \<open>
  Claim C7. The claim has \<open>handleFlowControl\<close> conveyed to the backend at spawn time;
  the code never reads the field. The call made on bun-pty is the same with the flag
  enabled and with the flag unset, and \<open>write\<close> passes the data straight on.
\<close>

theorem handleFlowControl_dropped:
  "spawn command args (options\<lparr>handleFlowControl := Some True\<rparr>) =
     spawn command args (options\<lparr>handleFlowControl := None\<rparr>)
   \<and> write_data d = PtyWrite d"
  by (simp add: spawn_def cleanEnv_def write_data_def)

subsection \<open>The exit callback\<close>

text \<open>
  Claim C8, as the code has it. The backend reports exit code 0 and signal 15; the
  callback receives the exit code and no signal.
\<close>

theorem onExit_signal_counterexample:
  "onExit id \<lparr>exitCode = 0, signal = Some 15\<rparr> = \<lparr>exitCode = 0, signal = None\<rparr>
   \<and> onExit id \<lparr>exitCode = 0, signal = Some 15\<rparr> \<noteq> id \<lparr>exitCode = 0, signal = Some 15\<rparr>"
  by (simp add: onExit_def)

text \<open>
  Claim C8, amended. Every registered exit callback is invoked with the exit code
  that the backend reports, and never with a signal number.
\<close>

theorem onExit_passes_exit_code_only:
  "onExit callback e = callback \<lparr>exitCode = exitCode e, signal = None\<rparr>"
  by (simp add: onExit_def)

subsection \<open>kill\<close>

text \<open>
  Claim C9. The claim has the signal of the caller reach the backend; \<open>kill\<close> takes
  no parameter and calls \<open>pty.kill()\<close> without one, so a call with \<open>SIGKILL\<close> makes
  the same backend call as a call without a signal.
\<close>

theorem kill_ignores_signal:
  "kill (Some ''SIGKILL'') = PtyKill None \<and> kill (Some ''SIGKILL'') = kill None"
  by (simp add: kill_def)

subsection \<open>createPtyAdapter\<close>

text \<open>
  Claim C3, as the code has it. Outside Bun the result is null and nothing is
  written to the debug log.
\<close>

theorem createPtyAdapter_silent_counterexample:
  "fst (createPtyAdapter
          \<lparr>isBun = False, import_bun_pty = Inr ''spawn'', bunPtySpawn = None, debug_log = []\<rparr>)
     = Inr None
   \<and> debug_log (snd (createPtyAdapter
          \<lparr>isBun = False, import_bun_pty = Inr ''spawn'', bunPtySpawn = None, debug_log = []\<rparr>))
     = []"
  by (simp add: createPtyAdapter_def)

text \<open>
  Claim C3, amended. \<open>createPtyAdapter\<close> never throws to its caller. Outside Bun it
  returns null and leaves the state, the debug log included, as it was. In Bun, when
  the import of bun-pty fails, the exception is caught, one debug entry with the
  error is recorded and null is returned; and whenever the result is null in Bun,
  one debug entry has been recorded.
\<close>

theorem createPtyAdapter_never_throws:
  "(\<exists>r. fst (createPtyAdapter rt) = Inr r)
   \<and> (\<not> isBun rt \<longrightarrow> createPtyAdapter rt = (Inr None, rt))
   \<and> (isBun rt \<and> bunPtySpawn rt = None \<and> import_bun_pty rt = Inl err \<longrightarrow>
        createPtyAdapter rt =
          (Inr None,
           rt\<lparr>debug_log := debug_log rt @ [(''Failed to create bun-pty adapter:'', err)]\<rparr>))
   \<and> (isBun rt \<and> fst (createPtyAdapter rt) = Inr None \<longrightarrow>
        (\<exists>e. debug_log (snd (createPtyAdapter rt)) =
               debug_log rt @ [(''Failed to create bun-pty adapter:'', e)]))"
  by (auto simp: createPtyAdapter_def createBunPtyAdapter_def debug_def
      split: option.splits sum.splits)

theorem createPtyAdapter_never_throws_witness:
  "\<not> isBun \<lparr>isBun = False, import_bun_pty = Inr ''spawn'', bunPtySpawn = None, debug_log = []\<rparr>
   \<and> createPtyAdapter
        \<lparr>isBun = False, import_bun_pty = Inr ''spawn'', bunPtySpawn = None, debug_log = []\<rparr> =
       (Inr None,
        \<lparr>isBun = False, import_bun_pty = Inr ''spawn'', bunPtySpawn = None, debug_log = []\<rparr>)
   \<and> isBun \<lparr>isBun = True, import_bun_pty = Inl (ErrorObject None ''Cannot find package bun-pty'') :: js_error + string,
             bunPtySpawn = None, debug_log = []\<rparr>
   \<and> createPtyAdapter
        \<lparr>isBun = True, import_bun_pty = Inl (ErrorObject None ''Cannot find package bun-pty'') :: js_error + string,
         bunPtySpawn = None, debug_log = []\<rparr> =
       (Inr None,
        \<lparr>isBun = True, import_bun_pty = Inl (ErrorObject None ''Cannot find package bun-pty''),
         bunPtySpawn = None,
         debug_log = [(''Failed to create bun-pty adapter:'',
                       ErrorObject None ''Cannot find package bun-pty'')]\<rparr>)"
  using createPtyAdapter_never_throws
          [of "\<lparr>isBun = False, import_bun_pty = Inr ''spawn'', bunPtySpawn = None, debug_log = []\<rparr>"]
        createPtyAdapter_never_throws
          [of "\<lparr>isBun = True, import_bun_pty = Inl (ErrorObject None ''Cannot find package bun-pty'') :: js_error + string,
                bunPtySpawn = None, debug_log = []\<rparr>"
              "ErrorObject None ''Cannot find package bun-pty''"]
  by simp

end
